theory Spec2Isabelle
  imports Main "HOL-Library.AList"
begin

section \<open>Values that travel in socket events\<close>

text \<open>
  The server of \<^verbatim>\<open>web_messenger_app.js\<close> receives the events \<^verbatim>\<open>join\<close>,
  \<^verbatim>\<open>globalMessage\<close> and \<^verbatim>\<open>privateMessage\<close> with one argument each, chosen by the
  client. The model covers the payloads \<^verbatim>\<open>undefined\<close> (an event sent without argument),
  \<^verbatim>\<open>null\<close>, booleans, strings and plain objects (as produced by parsing JSON, listed
  by their own properties). Numbers, arrays and binary payloads are not part of the model.
\<close>

datatype jsval =
    JUndefined
  | JNull
  | JBool bool
  | JStr string
  | JObj "(string \<times> jsval) list"

datatype js_error = TypeError

text \<open>
  \<^verbatim>\<open>obj[v]\<close> converts \<^verbatim>\<open>v\<close> to a property key. Primitives are converted to their
  string form. A plain object is converted by the \<^verbatim>\<open>toString\<close> it inherits, which gives
  \<^verbatim>\<open>[object Object]\<close>; an own property \<^verbatim>\<open>toString\<close> hides the inherited method and,
  coming from JSON, is never callable, and then neither \<^verbatim>\<open>toString\<close> nor
  \<^verbatim>\<open>valueOf\<close> yields a primitive: the conversion throws a TypeError (\<open>None\<close>).
\<close>

fun to_key :: "jsval \<Rightarrow> string option" where
  "to_key JUndefined = Some ''undefined''"
| "to_key JNull = Some ''null''"
| "to_key (JBool b) = Some (if b then ''true'' else ''false'')"
| "to_key (JStr s) = Some s"
| "to_key (JObj fs) =
     (if ''toString'' \<in> set (map fst fs) then None else Some ''[object Object]'')"

text \<open>
  The parameter pattern \<^verbatim>\<open>({ to, text })\<close> reads the properties \<^verbatim>\<open>to\<close> and
  \<^verbatim>\<open>text\<close> of the payload. It throws a TypeError on \<^verbatim>\<open>undefined\<close> and
  \<^verbatim>\<open>null\<close>; on a boolean or a string it reads the property of the wrapper object.
  No prototype defines a property of either name, so a property that is not the payload's
  own reads as \<^verbatim>\<open>undefined\<close>.
\<close>

fun destructurable :: "jsval \<Rightarrow> bool" where
  "destructurable JUndefined = False"
| "destructurable JNull = False"
| "destructurable _ = True"

fun field :: "jsval \<Rightarrow> string \<Rightarrow> jsval" where
  "field (JObj fs) k = (case map_of fs k of Some v \<Rightarrow> v | None \<Rightarrow> JUndefined)"
| "field _ k = JUndefined"


section \<open>Plain objects used as tables\<close>

text \<open>
  \<^verbatim>\<open>const users = {}\<close> and \<^verbatim>\<open>const onlineUsers = {}\<close> are plain objects: a table of
  own properties in front of \<^verbatim>\<open>Object.prototype\<close>. A read that finds no own property
  continues in the prototype and finds its members there (functions, and the prototype
  object itself under \<^verbatim>\<open>__proto__\<close>). An assignment creates or overwrites an own
  property, except for the key \<^verbatim>\<open>__proto__\<close>: that one is an accessor of the
  prototype, whose setter ignores a value that is not an object. \<^verbatim>\<open>delete\<close> removes an
  own property and never touches the prototype.
\<close>

definition object_prototype_keys :: "string list" where
  "object_prototype_keys =
     [''constructor'', ''__defineGetter__'', ''__defineSetter__'', ''hasOwnProperty'',
      ''__lookupGetter__'', ''__lookupSetter__'', ''isPrototypeOf'',
      ''propertyIsEnumerable'', ''toString'', ''valueOf'', ''__proto__'',
      ''toLocaleString'']"

datatype 'v slot = Missing | Own 'v | Inherited

definition get_prop :: "(string \<times> 'v) list \<Rightarrow> string \<Rightarrow> 'v slot" where
  "get_prop obj k =
     (case map_of obj k of
        Some v \<Rightarrow> Own v
      | None \<Rightarrow> if k \<in> set object_prototype_keys then Inherited else Missing)"

definition set_prop :: "(string \<times> 'v) list \<Rightarrow> string \<Rightarrow> 'v \<Rightarrow> (string \<times> 'v) list" where
  "set_prop obj k v = (if k = ''__proto__'' then obj else AList.update k v obj)"

definition delete_prop :: "(string \<times> 'v) list \<Rightarrow> string \<Rightarrow> (string \<times> 'v) list" where
  "delete_prop obj k = AList.delete k obj"

text \<open>
  The values stored in the two tables are socket ids (non-empty strings made by the
  library) and account records: both are truthy, as is every member of the prototype.
\<close>

fun truthy :: "'v slot \<Rightarrow> bool" where
  "truthy Missing = False"
| "truthy (Own v) = True"
| "truthy Inherited = True"

text \<open>
  A handle is a nickname that \<^verbatim>\<open>POST /register\<close> can accept: the route answers
  \<^verbatim>\<open>Nickname already exists\<close> when \<^verbatim>\<open>users[nickname]\<close> is truthy, which it is for
  every member name of the prototype whatever accounts exist.
\<close>

definition nickname_taken :: "(string \<times> 'v) list \<Rightarrow> string \<Rightarrow> bool" where
  "nickname_taken users n = truthy (get_prop users n)"

definition is_handle :: "string \<Rightarrow> bool" where
  "is_handle n = (\<not> nickname_taken ([] :: (string \<times> unit) list) n)"


section \<open>The server state\<close>

text \<open>
  A socket is known by its id. \<open>nickname\<close> is the property the \<^verbatim>\<open>join\<close> handler
  stores on the socket object, \<open>connected\<close> the sockets of the namespace in the order
  they connected. \<open>outbox\<close> logs the calls of \<^verbatim>\<open>io.emit\<close> and
  \<^verbatim>\<open>io.to(room).emit\<close> with the addressed target, \<open>delivered\<close> which socket
  was handed which event.
\<close>

type_synonym socket_id = nat

datatype out_event =
    GlobalMessageOut (sender: jsval) (text_of: jsval)
  | PrivateMessageOut (sender: jsval) (text_of: jsval)

datatype target = Everyone | Room "socket_id slot"

record server =
  onlineUsers :: "(string \<times> socket_id) list"
  nickname :: "socket_id \<Rightarrow> jsval"
  connected :: "socket_id list"
  outbox :: "(target \<times> out_event) list"
  delivered :: "(socket_id \<times> out_event) list"

definition init :: server where
  "init = \<lparr>onlineUsers = [], nickname = (\<lambda>_. JUndefined), connected = [],
           outbox = [], delivered = []\<rparr>"

text \<open>
  The library's side of an emit. \<^verbatim>\<open>io.emit\<close> reaches every socket of the namespace.
  \<^verbatim>\<open>io.to(room)\<close> reaches the sockets in that room; the source never calls
  \<^verbatim>\<open>socket.join\<close>, so a socket is in the room named by its own id and in no other,
  and a room named by anything but the id of a connected socket has no member.
\<close>

fun members :: "socket_id list \<Rightarrow> target \<Rightarrow> socket_id list" where
  "members conn Everyone = conn"
| "members conn (Room (Own i)) = filter (\<lambda>r. r = i) conn"
| "members conn (Room _) = []"

definition emit :: "server \<Rightarrow> target \<Rightarrow> out_event \<Rightarrow> server" where
  "emit s t ev =
     s\<lparr>outbox := outbox s @ [(t, ev)],
       delivered := delivered s @ map (\<lambda>r. (r, ev)) (members (connected s) t)\<rparr>"


section \<open>The four handlers of a connection\<close>

datatype outcome = Done server | Threw js_error server

fun state_of :: "outcome \<Rightarrow> server" where
  "state_of (Done s) = s"
| "state_of (Threw e s) = s"

fun completes :: "outcome \<Rightarrow> bool" where
  "completes (Done s) = True"
| "completes (Threw e s) = False"

text \<open>
  \<^verbatim>\<open>socket.on('join', (nickname) => { socket.nickname = nickname;
  onlineUsers[nickname] = socket.id; })\<close>
\<close>

definition on_join :: "server \<Rightarrow> socket_id \<Rightarrow> jsval \<Rightarrow> outcome" where
  "on_join s sock nick =
     (let s1 = s\<lparr>nickname := (nickname s)(sock := nick)\<rparr> in
      case to_key nick of
        None \<Rightarrow> Threw TypeError s1
      | Some k \<Rightarrow> Done (s1\<lparr>onlineUsers := set_prop (onlineUsers s1) k sock\<rparr>))"

text \<open>
  \<^verbatim>\<open>socket.on('globalMessage', (msg) => { io.emit('globalMessage',
  { user: socket.nickname, text: msg }); })\<close>
\<close>

definition on_globalMessage :: "server \<Rightarrow> socket_id \<Rightarrow> jsval \<Rightarrow> outcome" where
  "on_globalMessage s sock msg =
     Done (emit s Everyone (GlobalMessageOut (nickname s sock) msg))"

text \<open>
  \<^verbatim>\<open>socket.on('privateMessage', ({ to, text }) => { const targetId = onlineUsers[to];
  if (targetId) { io.to(targetId).emit('privateMessage', { from: socket.nickname, text }); } })\<close>
\<close>

definition on_privateMessage :: "server \<Rightarrow> socket_id \<Rightarrow> jsval \<Rightarrow> outcome" where
  "on_privateMessage s sock payload =
     (if \<not> destructurable payload then Threw TypeError s
      else
        let to = field payload ''to''; text = field payload ''text'' in
        case to_key to of
          None \<Rightarrow> Threw TypeError s
        | Some k \<Rightarrow>
            let targetId = get_prop (onlineUsers s) k in
            if truthy targetId
            then Done (emit s (Room targetId) (PrivateMessageOut (nickname s sock) text))
            else Done s)"

text \<open>
  \<^verbatim>\<open>socket.on('disconnect', () => { delete onlineUsers[socket.nickname]; })\<close>
\<close>

definition on_disconnect :: "server \<Rightarrow> socket_id \<Rightarrow> outcome" where
  "on_disconnect s sock =
     (case to_key (nickname s sock) of
        None \<Rightarrow> Threw TypeError s
      | Some k \<Rightarrow> Done (s\<lparr>onlineUsers := delete_prop (onlineUsers s) k\<rparr>))"


section \<open>Connections and runs\<close>

text \<open>
  \<^verbatim>\<open>io.on('connection', (socket) => ...)\<close> installs the four handlers on a new socket
  object, which has no \<^verbatim>\<open>nickname\<close> property yet. The library keeps the sockets of the
  namespace in a map keyed by id, gives every connection an id of its own, dispatches
  an event only to the handlers of a connected socket, and takes a socket out of the
  namespace before it fires \<^verbatim>\<open>disconnect\<close>. Nothing in the source catches an
  exception, so a run ends at the first handler that throws.
\<close>

datatype event =
    Connect
  | Join jsval
  | GlobalMessage jsval
  | PrivateMessage jsval
  | Disconnect

definition on_connection :: "server \<Rightarrow> socket_id \<Rightarrow> server" where
  "on_connection s sock =
     s\<lparr>nickname := (nickname s)(sock := JUndefined),
       connected := connected s @ [sock]\<rparr>"

definition leave :: "server \<Rightarrow> socket_id \<Rightarrow> server" where
  "leave s sock = s\<lparr>connected := removeAll sock (connected s)\<rparr>"

fun step :: "server \<Rightarrow> socket_id \<times> event \<Rightarrow> outcome" where
  "step s (sock, Connect) =
     (if sock \<in> set (connected s) then Done s else Done (on_connection s sock))"
| "step s (sock, ev) =
     (if sock \<notin> set (connected s) then Done s
      else case ev of
        Join n \<Rightarrow> on_join s sock n
      | GlobalMessage m \<Rightarrow> on_globalMessage s sock m
      | PrivateMessage p \<Rightarrow> on_privateMessage s sock p
      | Disconnect \<Rightarrow> on_disconnect (leave s sock) sock
      | Connect \<Rightarrow> Done s)"

fun run :: "server \<Rightarrow> (socket_id \<times> event) list \<Rightarrow> outcome" where
  "run s [] = Done s"
| "run s (e # es) =
     (case step s e of
        Done s' \<Rightarrow> run s' es
      | Threw err s' \<Rightarrow> Threw err s')"


section \<open>Facts about the tables\<close>

lemma is_handle_iff: "is_handle n \<longleftrightarrow> n \<notin> set object_prototype_keys"
  by (simp add: is_handle_def nickname_taken_def get_prop_def)

lemma handle_not_proto: "is_handle n \<Longrightarrow> n \<noteq> ''__proto__''"
  by (auto simp add: is_handle_iff object_prototype_keys_def)

text \<open>Whatever accounts exist, registration turns down a name that is not a handle.\<close>

lemma taken_not_handle: "\<not> is_handle n \<Longrightarrow> nickname_taken users n"
  by (simp add: is_handle_iff nickname_taken_def get_prop_def split: option.splits)

text \<open>
  \<open>map_of obj k\<close> is the own property of \<open>obj\<close> under \<open>k\<close>: the entry of the
  table, as opposed to what a read finds in the prototype.
\<close>

lemma get_prop_Own: "get_prop obj k = Own v \<longleftrightarrow> map_of obj k = Some v"
  by (simp add: get_prop_def split: option.splits)

lemma map_of_set_prop_same: "k \<noteq> ''__proto__'' \<Longrightarrow> map_of (set_prop obj k v) k = Some v"
  by (simp add: set_prop_def update_conv')

lemma map_of_set_prop_other: "k' \<noteq> k \<Longrightarrow> map_of (set_prop obj k v) k' = map_of obj k'"
  by (simp add: set_prop_def update_conv')

lemma map_of_delete_prop: "map_of (delete_prop obj k) = (map_of obj)(k := None)"
  by (simp add: delete_prop_def delete_conv')

lemma distinct_set_prop: "distinct (map fst obj) \<Longrightarrow> distinct (map fst (set_prop obj k v))"
  by (simp add: set_prop_def distinct_update)

lemma distinct_delete_prop: "distinct (map fst obj) \<Longrightarrow> distinct (map fst (delete_prop obj k))"
  by (simp add: delete_prop_def distinct_delete)

lemma keys_set_prop_present:
  "map_of obj k = Some c \<Longrightarrow> map fst (set_prop obj k v) = map fst obj"
  by (auto simp add: set_prop_def update_keys dest: map_of_SomeD intro: rev_image_eqI)

text \<open>
  The key \<^verbatim>\<open>__proto__\<close> never gets an entry, and it is not a handle: a table has no
  own property of that name, and a read under it finds the prototype.
\<close>

lemma set_prop_proto: "set_prop obj ''__proto__'' v = obj"
  by (simp add: set_prop_def)

lemma proto_not_handle: "\<not> is_handle ''__proto__''"
  by (simp add: is_handle_iff object_prototype_keys_def)

lemma onlineUsers_emit [simp]: "onlineUsers (emit s t ev) = onlineUsers s"
  and nickname_emit [simp]: "nickname (emit s t ev) = nickname s"
  and connected_emit [simp]: "connected (emit s t ev) = connected s"
  by (simp_all add: emit_def)


section \<open>Facts about runs\<close>

text \<open>A property that every step keeps holds in the state a run ends in.\<close>

lemma run_invariant:
  assumes "\<And>s e. P s \<Longrightarrow> e \<in> set es \<Longrightarrow> P (state_of (step s e))" and "P s"
  shows "P (state_of (run s es))"
  using assms
proof (induction es arbitrary: s)
  case Nil
  then show ?case by simp
next
  case (Cons e es)
  have P': "P (state_of (step s e))" using Cons.prems by simp
  show ?case
  proof (cases "step s e")
    case (Done s')
    with P' have "P s'" by simp
    then have "P (state_of (run s' es))"
      using Cons.IH Cons.prems(1) by simp
    with Done show ?thesis by simp
  next
    case (Threw err s')
    with P' show ?thesis by simp
  qed
qed

lemmas handler_defs =
  on_join_def on_globalMessage_def on_privateMessage_def on_disconnect_def
  on_connection_def leave_def Let_def

lemma step_keys_distinct:
  "distinct (map fst (onlineUsers s)) \<Longrightarrow> distinct (map fst (onlineUsers (state_of (step s e))))"
  by (cases e; cases "snd e")
    (auto simp add: handler_defs distinct_set_prop distinct_delete_prop split: option.splits)

lemma step_connected_distinct:
  "distinct (connected s) \<Longrightarrow> distinct (connected (state_of (step s e)))"
  by (cases e; cases "snd e")
    (auto simp add: handler_defs distinct_removeAll split: option.splits)

text \<open>
  The \<^verbatim>\<open>nickname\<close> of a socket is written by its own \<^verbatim>\<open>join\<close> handler and by
  nothing else; a new connection starts without one.
\<close>

lemma step_nickname_undefined:
  "nickname s sock = JUndefined \<Longrightarrow> (\<forall>v. e \<noteq> (sock, Join v)) \<Longrightarrow>
   nickname (state_of (step s e)) sock = JUndefined"
  by (cases e; cases "snd e") (auto simp add: handler_defs split: option.splits)

lemma step_nickname_kept:
  "(\<forall>v. e \<noteq> (sock, Join v)) \<Longrightarrow> e \<noteq> (sock, Connect) \<Longrightarrow>
   nickname (state_of (step s e)) sock = nickname s sock"
  by (cases e; cases "snd e") (auto simp add: handler_defs split: option.splits)

lemma run_connected_distinct:
  "distinct (connected s) \<Longrightarrow> distinct (connected (state_of (run s es)))"
  by (rule run_invariant [where P = "\<lambda>s. distinct (connected s)"])
    (simp_all add: step_connected_distinct)

lemma run_keys_distinct:
  "distinct (map fst (onlineUsers s)) \<Longrightarrow> distinct (map fst (onlineUsers (state_of (run s es))))"
  by (rule run_invariant [where P = "\<lambda>s. distinct (map fst (onlineUsers s))"])
    (simp_all add: step_keys_distinct)

lemma run_nickname_undefined:
  assumes "nickname s sock = JUndefined" and "\<forall>v. (sock, Join v) \<notin> set es"
  shows "nickname (state_of (run s es)) sock = JUndefined"
proof (rule run_invariant [where P = "\<lambda>s. nickname s sock = JUndefined"])
  show "nickname s sock = JUndefined" by (rule assms(1))
next
  fix t :: server and e
  assume "nickname t sock = JUndefined" and "e \<in> set es"
  with assms(2) show "nickname (state_of (step t e)) sock = JUndefined"
    by (auto intro: step_nickname_undefined)
qed

lemma run_nickname_kept:
  assumes "\<forall>v. (sock, Join v) \<notin> set es" and "(sock, Connect) \<notin> set es"
  shows "nickname (state_of (run s es)) sock = nickname s sock"
proof (rule run_invariant [where P = "\<lambda>t. nickname t sock = nickname s sock"])
  show "nickname s sock = nickname s sock" by simp
next
  fix t :: server and e
  assume "nickname t sock = nickname s sock" and "e \<in> set es"
  with assms show "nickname (state_of (step t e)) sock = nickname s sock"
    by (metis step_nickname_kept)
qed

lemma on_join_str:
  "on_join s sock (JStr h) =
     Done (s\<lparr>nickname := (nickname s)(sock := JStr h),
             onlineUsers := set_prop (onlineUsers s) h sock\<rparr>)"
  by (simp add: on_join_def)

lemma to_key_None: "to_key v = None \<longleftrightarrow> (\<exists>fs. v = JObj fs \<and> ''toString'' \<in> fst ` set fs)"
  by (cases v) auto

lemma destructurable_iff: "destructurable p \<longleftrightarrow> p \<noteq> JUndefined \<and> p \<noteq> JNull"
  by (cases p) auto

lemma outbox_emit: "outbox (emit s t ev) = outbox s @ [(t, ev)]"
  and delivered_emit:
    "delivered (emit s t ev) = delivered s @ map (\<lambda>r. (r, ev)) (members (connected s) t)"
  by (simp_all add: emit_def)

lemma count_list_map_pair:
  "distinct xs \<Longrightarrow>
   count_list (map (\<lambda>r. (r, ev)) xs) (r, d) = (if r \<in> set xs \<and> d = ev then 1 else 0)"
  by (induction xs) auto

text \<open>The three ways a \<^verbatim>\<open>privateMessage\<close> can end.\<close>

lemma private_cases:
  "on_privateMessage s sock p = Threw TypeError s \<or> on_privateMessage s sock p = Done s
   \<or> (\<exists>t. on_privateMessage s sock p =
          Done (emit s t (PrivateMessageOut (nickname s sock) (field p ''text''))))"
  by (auto simp add: on_privateMessage_def Let_def split: option.splits)

lemma step_message_sender:
  assumes "ev = GlobalMessage p \<or> ev = PrivateMessage p"
  shows "\<exists>calls new.
      outbox (state_of (step s (sock, ev))) = outbox s @ calls
    \<and> delivered (state_of (step s (sock, ev))) = delivered s @ new
    \<and> (\<forall>x\<in>set calls. sender (snd x) = nickname s sock)
    \<and> (\<forall>x\<in>set new. sender (snd x) = nickname s sock)"
proof (cases "sock \<in> set (connected s)")
  case False
  with assms show ?thesis by auto
next
  case True
  from assms show ?thesis
  proof
    assume "ev = GlobalMessage p"
    with True show ?thesis
      by (auto simp add: on_globalMessage_def outbox_emit delivered_emit)
  next
    assume e: "ev = PrivateMessage p"
    from private_cases [of s sock p] e True show ?thesis
      by (auto simp add: outbox_emit delivered_emit)
  qed
qed


lemma field_str_destructurable: "field p k = JStr t \<Longrightarrow> destructurable p"
  by (cases p) auto

lemma filter_eq_distinct:
  "distinct xs \<Longrightarrow> filter (\<lambda>r. r = c) xs = (if c \<in> set xs then [c] else [])"
  by (induction xs) auto

text \<open>
  A socket that connects and sends no \<^verbatim>\<open>join\<close> has no \<^verbatim>\<open>nickname\<close>, whatever
  the other sockets do in the meantime.
\<close>

lemma never_joined:
  assumes "sock \<notin> set (connected s0)" and "s = state_of (run s0 ((sock, Connect) # es))"
    and "\<forall>v. (sock, Join v) \<notin> set es"
  shows "nickname s sock = JUndefined"
proof -
  have "s = state_of (run (on_connection s0 sock) es)"
    using assms(1,2) by simp
  moreover have "nickname (on_connection s0 sock) sock = JUndefined"
    by (simp add: on_connection_def)
  ultimately show ?thesis
    using assms(3) by (simp add: run_nickname_undefined)
qed


section \<open>The registry on disconnect\<close>

text \<open>
  Claim C1 says that after \<^verbatim>\<open>register(H, C1); register(H, C2)\<close> the disconnect of
  \<open>C1\<close> leaves the registry as it is, with \<open>H\<close> still mapped to \<open>C2\<close>. The
  \<^verbatim>\<open>disconnect\<close> handler deletes the entry of the nickname stored on the socket and
  never compares the stored id with the id of the socket. Counterexample to C1: sockets
  1 and 2 both join as \<^verbatim>\<open>alice\<close>; the entry then holds 2; socket 1 disconnects and
  the entry is gone.
\<close>

theorem stale_disconnect_removes_newer_entry:
  "completes (run init [(1, Connect), (2, Connect), (1, Join (JStr ''alice'')),
      (2, Join (JStr ''alice''))])
   \<and> get_prop (onlineUsers (state_of (run init [(1, Connect), (2, Connect),
        (1, Join (JStr ''alice'')), (2, Join (JStr ''alice''))]))) ''alice'' = Own 2
   \<and> completes (run init [(1, Connect), (2, Connect), (1, Join (JStr ''alice'')),
        (2, Join (JStr ''alice'')), (1, Disconnect)])
   \<and> get_prop (onlineUsers (state_of (run init [(1, Connect), (2, Connect),
        (1, Join (JStr ''alice'')), (2, Join (JStr ''alice'')), (1, Disconnect)]))) ''alice''
       = Missing"
  by (simp add: init_def handler_defs set_prop_def delete_prop_def get_prop_def
      object_prototype_keys_def)

text \<open>
  Claim C1, amended: after \<^verbatim>\<open>register(H, C1); register(H, C2)\<close> with \<open>C1\<close> distinct
  from \<open>C2\<close>, the entry of a handle \<open>H\<close> holds \<open>C2\<close>, and the disconnect of either
  channel removes it: the handler completes, \<open>H\<close> has no entry afterwards, and the entry of every
  other key is as before. The removal does not depend on which channel the entry holds.
\<close>

theorem disconnect_removes_entry_of_either_channel:
  assumes "c1 \<noteq> c2"
    and "s2 = state_of (on_join (state_of (on_join s c1 (JStr h))) c2 (JStr h))"
  shows "(is_handle h \<longrightarrow> map_of (onlineUsers s2) h = Some c2)
    \<and> (\<forall>c\<in>{c1, c2}.
          completes (on_disconnect s2 c)
        \<and> map_of (onlineUsers (state_of (on_disconnect s2 c))) h = None
        \<and> (\<forall>k. k \<noteq> h \<longrightarrow>
              map_of (onlineUsers (state_of (on_disconnect s2 c))) k
                = map_of (onlineUsers s2) k))"
  using assms
  by (auto simp add: on_join_str on_disconnect_def map_of_delete_prop map_of_set_prop_same
      handle_not_proto)

theorem disconnect_removes_entry_of_either_channel_witness:
  "(1::socket_id) \<noteq> 2 \<and> is_handle ''alice''
   \<and> map_of (onlineUsers (state_of (on_join (state_of (on_join init 1 (JStr ''alice''))) 2
        (JStr ''alice'')))) ''alice'' = Some 2
   \<and> completes (on_disconnect (state_of (on_join (state_of (on_join init 1 (JStr ''alice'')))
        2 (JStr ''alice''))) 1)
   \<and> map_of (onlineUsers (state_of (on_disconnect (state_of (on_join (state_of
        (on_join init 1 (JStr ''alice''))) 2 (JStr ''alice''))) 1))) ''alice'' = None
   \<and> map_of (onlineUsers (state_of (on_disconnect (state_of (on_join (state_of
        (on_join init 1 (JStr ''alice''))) 2 (JStr ''alice''))) 2))) ''alice'' = None"
  using disconnect_removes_entry_of_either_channel
    [of 1 2 "state_of (on_join (state_of (on_join init 1 (JStr ''alice''))) 2 (JStr ''alice''))"
      init "''alice''"]
  by (simp add: is_handle_iff object_prototype_keys_def)


section \<open>Broadcast\<close>

text \<open>
  Claim C2 says that a broadcast reaches the channels of the registry and no channel that
  is not registered. The handler calls \<^verbatim>\<open>io.emit\<close>, which does not read
  \<^verbatim>\<open>onlineUsers\<close>. Counterexample to C2: socket 2 is connected and has never joined;
  the broadcast of socket 1 is delivered to it although no entry of the registry holds 2.
\<close>

theorem broadcast_reaches_unregistered_socket:
  "(2, GlobalMessageOut (JStr ''alice'') (JStr ''hi''))
     \<in> set (delivered (state_of (run init [(1, Connect), (2, Connect),
           (1, Join (JStr ''alice'')), (1, GlobalMessage (JStr ''hi''))])))
   \<and> 2 \<notin> set (map snd (onlineUsers (state_of (run init [(1, Connect), (2, Connect),
           (1, Join (JStr ''alice'')), (1, GlobalMessage (JStr ''hi''))]))))"
  by (simp add: init_def handler_defs set_prop_def emit_def)

text \<open>
  Claim C2, amended: for every state in which no socket is listed twice among the connected
  ones, a broadcast of \<open>msg\<close> on behalf of a socket makes one call of \<^verbatim>\<open>io.emit\<close>,
  and the event with the nickname of that socket as sender and \<open>msg\<close> as text is
  delivered exactly once to every connected socket (registered or not, the sender's
  own included) and to no socket that is not connected; nothing else is delivered.
\<close>

theorem broadcast_once_to_every_connected_socket:
  assumes "distinct (connected s)"
  shows "\<exists>new. on_globalMessage s sock msg =
           Done (s\<lparr>outbox := outbox s @ [(Everyone, GlobalMessageOut (nickname s sock) msg)],
                   delivered := delivered s @ new\<rparr>)
     \<and> (\<forall>r d. count_list new (r, d) =
           (if r \<in> set (connected s) \<and> d = GlobalMessageOut (nickname s sock) msg
            then 1 else 0))"
  by (rule exI [where x = "map (\<lambda>r. (r, GlobalMessageOut (nickname s sock) msg)) (connected s)"])
    (simp add: on_globalMessage_def emit_def count_list_map_pair [OF assms])

theorem broadcast_once_to_every_connected_socket_witness:
  "distinct (connected (on_connection (on_connection init 1) 2))
   \<and> (\<exists>new. on_globalMessage (on_connection (on_connection init 1) 2) 1 (JStr ''hi'') =
           Done ((on_connection (on_connection init 1) 2)
                  \<lparr>outbox := [(Everyone, GlobalMessageOut JUndefined (JStr ''hi''))],
                   delivered := new\<rparr>)
     \<and> count_list new (1, GlobalMessageOut JUndefined (JStr ''hi'')) = 1
     \<and> count_list new (2, GlobalMessageOut JUndefined (JStr ''hi'')) = 1
     \<and> count_list new (3, GlobalMessageOut JUndefined (JStr ''hi'')) = 0)"
proof -
  have d: "distinct (connected (on_connection (on_connection init 1) 2))"
    by (simp add: on_connection_def init_def)
  from broadcast_once_to_every_connected_socket [OF d, of 1 "JStr ''hi''"]
  obtain new where
    "on_globalMessage (on_connection (on_connection init 1) 2) 1 (JStr ''hi'') =
       Done ((on_connection (on_connection init 1) 2)
          \<lparr>outbox := outbox (on_connection (on_connection init 1) 2)
              @ [(Everyone, GlobalMessageOut
                   (nickname (on_connection (on_connection init 1) 2) 1) (JStr ''hi''))],
           delivered := delivered (on_connection (on_connection init 1) 2) @ new\<rparr>)"
    and "\<forall>r d. count_list new (r, d) =
       (if r \<in> set (connected (on_connection (on_connection init 1) 2))
          \<and> d = GlobalMessageOut (nickname (on_connection (on_connection init 1) 2) 1)
                 (JStr ''hi'')
        then 1 else 0)"
    by blast
  then show ?thesis
    using d by (intro conjI exI [where x = new]) (simp_all add: on_connection_def init_def)
qed


section \<open>Payloads that make a handler throw\<close>

text \<open>
  Claim C3 says that the handling of every inbound event completes without throwing,
  whatever the payload. Counterexample to C3: a \<^verbatim>\<open>privateMessage\<close> sent without
  payload. The parameter pattern \<^verbatim>\<open>({ to, text })\<close> cannot destructure
  \<^verbatim>\<open>undefined\<close>: the handler throws a TypeError, which nothing in the source catches.
\<close>

theorem private_message_without_payload_throws:
  "\<not> completes (run init [(1, Connect), (1, PrivateMessage JUndefined)])"
  by (simp add: init_def handler_defs)

text \<open>
  Claim C3, amended: the \<^verbatim>\<open>globalMessage\<close> handler completes for every payload. The
  \<^verbatim>\<open>privateMessage\<close> handler completes exactly when the payload is neither
  \<^verbatim>\<open>undefined\<close> nor \<^verbatim>\<open>null\<close> and its \<^verbatim>\<open>to\<close> is not an object with an own
  property \<^verbatim>\<open>toString\<close> (which cannot be converted to a key). The \<^verbatim>\<open>join\<close>
  handler completes exactly when the nickname is not such an object, and the
  \<^verbatim>\<open>disconnect\<close> handler exactly when the nickname stored on the socket is not one.
  In the other cases the handler throws a TypeError.
\<close>

theorem handlers_complete_iff:
  "completes (on_globalMessage s sock m)
   \<and> (completes (on_join s sock n) \<longleftrightarrow>
        \<not> (\<exists>fs. n = JObj fs \<and> ''toString'' \<in> fst ` set fs))
   \<and> (completes (on_privateMessage s sock p) \<longleftrightarrow>
        p \<noteq> JUndefined \<and> p \<noteq> JNull
        \<and> \<not> (\<exists>fs. field p ''to'' = JObj fs \<and> ''toString'' \<in> fst ` set fs))
   \<and> (completes (on_disconnect s sock) \<longleftrightarrow>
        \<not> (\<exists>fs. nickname s sock = JObj fs \<and> ''toString'' \<in> fst ` set fs))"
proof -
  have g: "completes (on_globalMessage s sock m)"
    by (simp add: on_globalMessage_def)
  have j: "completes (on_join s sock n) \<longleftrightarrow> to_key n \<noteq> None"
    by (simp add: on_join_def Let_def split: option.splits)
  have p: "completes (on_privateMessage s sock p) \<longleftrightarrow>
      destructurable p \<and> to_key (field p ''to'') \<noteq> None"
    by (simp add: on_privateMessage_def Let_def split: option.splits)
  have d: "completes (on_disconnect s sock) \<longleftrightarrow> to_key (nickname s sock) \<noteq> None"
    by (simp add: on_disconnect_def split: option.splits)
  show ?thesis
    using g j p d by (simp add: to_key_None destructurable_iff)
qed

theorem handlers_complete_iff_witness:
  "completes (on_globalMessage init 1 JNull)
   \<and> completes (on_join init 1 (JStr ''alice''))
   \<and> \<not> completes (on_join init 1 (JObj [(''toString'', JNull)]))
   \<and> completes (on_privateMessage init 1 (JStr ''hello''))
   \<and> completes (on_privateMessage init 1 (JObj [(''to'', JStr ''bob''), (''text'', JStr ''x'')]))
   \<and> \<not> completes (on_privateMessage init 1 JNull)
   \<and> completes (on_disconnect init 1)"
  using handlers_complete_iff [of init 1 JNull "JStr ''alice''" "JStr ''hello''"]
    handlers_complete_iff [of init 1 JNull "JObj [(''toString'', JNull)]"
      "JObj [(''to'', JStr ''bob''), (''text'', JStr ''x'')]"]
    handlers_complete_iff [of init 1 JNull JNull JNull]
  by (simp add: init_def)


section \<open>The sender of a delivery\<close>

text \<open>
  Claim C4: the sender of every delivery is the nickname bound to the sending socket by its
  \<^verbatim>\<open>join\<close>. Let socket \<open>sock\<close> join as \<open>h\<close> and let any events follow among
  which \<open>sock\<close> neither joins again nor reconnects. Then for every payload \<open>p\<close>,
  whatever it contains, all calls and deliveries that a \<^verbatim>\<open>globalMessage\<close> or a
  \<^verbatim>\<open>privateMessage\<close> of \<open>sock\<close> with payload \<open>p\<close> adds carry the sender
  \<open>h\<close>; two payloads therefore never give different senders. A broadcast of the
  connected socket is the event with sender \<open>h\<close> and text \<open>p\<close>.
\<close>

theorem sender_is_nickname_bound_at_join:
  assumes "s = state_of (run (state_of (on_join s0 sock h)) es)"
    and "\<forall>v. (sock, Join v) \<notin> set es" and "(sock, Connect) \<notin> set es"
  shows "(\<forall>ev\<in>{GlobalMessage p, PrivateMessage p}. \<exists>calls new.
        outbox (state_of (step s (sock, ev))) = outbox s @ calls
      \<and> delivered (state_of (step s (sock, ev))) = delivered s @ new
      \<and> (\<forall>x\<in>set calls. sender (snd x) = h)
      \<and> (\<forall>x\<in>set new. sender (snd x) = h))
    \<and> (sock \<in> set (connected s) \<longrightarrow>
        step s (sock, GlobalMessage p) = Done (emit s Everyone (GlobalMessageOut h p)))"
proof -
  have "nickname (state_of (on_join s0 sock h)) sock = h"
    by (simp add: on_join_def Let_def split: option.splits)
  with assms have n: "nickname s sock = h"
    by (simp add: run_nickname_kept)
  show ?thesis
    using step_message_sender [of _ p s sock] by (auto simp add: n on_globalMessage_def)
qed

theorem sender_is_nickname_bound_at_join_witness:
  "1 \<in> set (connected (state_of (run (state_of (on_join (on_connection (on_connection init 1) 2)
        1 (JStr ''alice''))) [(2, Join (JStr ''bob''))])))
   \<and> step (state_of (run (state_of (on_join (on_connection (on_connection init 1) 2)
        1 (JStr ''alice''))) [(2, Join (JStr ''bob''))]))
       (1, GlobalMessage (JObj [(''user'', JStr ''bob''), (''text'', JStr ''x'')]))
     = Done (emit (state_of (run (state_of (on_join (on_connection (on_connection init 1) 2)
          1 (JStr ''alice''))) [(2, Join (JStr ''bob''))])) Everyone
        (GlobalMessageOut (JStr ''alice'')
          (JObj [(''user'', JStr ''bob''), (''text'', JStr ''x'')])))"
  using sender_is_nickname_bound_at_join
    [of "state_of (run (state_of (on_join (on_connection (on_connection init 1) 2)
        1 (JStr ''alice''))) [(2, Join (JStr ''bob''))])"
      "on_connection (on_connection init 1) 2" 1 "JStr ''alice''" "[(2, Join (JStr ''bob''))]"
      "JObj [(''user'', JStr ''bob''), (''text'', JStr ''x'')]"]
  by (simp add: handler_defs init_def)


section \<open>Direct messages\<close>

text \<open>
  Claim C5: in every state in which the target handle \<open>t\<close> is registered to a channel
  \<open>c\<close>, a direct message to \<open>t\<close> with text \<open>field p ''text''\<close> makes exactly one
  emit, addressed to the room of \<open>c\<close>, carrying the sender's nickname and the text;
  every delivery it causes goes to \<open>c\<close>, so no other channel receives anything; and
  \<open>c\<close> receives it exactly once when it is among the connected sockets, none of
  which is listed twice (as in every state that a run reaches, by
  \<open>run_connected_distinct\<close>).
\<close>

theorem direct_message_goes_to_target_only:
  assumes "map_of (onlineUsers s) t = Some c" and "field p ''to'' = JStr t"
  shows "\<exists>new. on_privateMessage s sock p =
        Done (s\<lparr>outbox := outbox s
                   @ [(Room (Own c), PrivateMessageOut (nickname s sock) (field p ''text''))],
                delivered := delivered s @ new\<rparr>)
    \<and> (\<forall>x\<in>set new. x = (c, PrivateMessageOut (nickname s sock) (field p ''text'')))
    \<and> (distinct (connected s) \<longrightarrow> c \<in> set (connected s) \<longrightarrow>
         new = [(c, PrivateMessageOut (nickname s sock) (field p ''text''))])"
proof -
  let ?ev = "PrivateMessageOut (nickname s sock) (field p ''text'')"
  have g: "get_prop (onlineUsers s) t = Own c"
    using assms(1) by (simp add: get_prop_Own)
  have "on_privateMessage s sock p = Done (emit s (Room (Own c)) ?ev)"
    using assms(2) field_str_destructurable [OF assms(2)]
    by (simp add: on_privateMessage_def Let_def g)
  then show ?thesis
    by (intro exI [where x = "map (\<lambda>r. (r, ?ev)) (filter (\<lambda>r. r = c) (connected s))"])
      (auto simp add: emit_def filter_eq_distinct)
qed

theorem direct_message_goes_to_target_only_witness:
  "map_of (onlineUsers (state_of (run init [(1, Connect), (2, Connect), (3, Connect),
        (1, Join (JStr ''alice'')), (2, Join (JStr ''bob''))]))) ''bob'' = Some 2
   \<and> field (JObj [(''to'', JStr ''bob''), (''text'', JStr ''secret'')]) ''to'' = JStr ''bob''
   \<and> delivered (state_of (on_privateMessage (state_of (run init [(1, Connect), (2, Connect),
        (3, Connect), (1, Join (JStr ''alice'')), (2, Join (JStr ''bob''))])) 1
        (JObj [(''to'', JStr ''bob''), (''text'', JStr ''secret'')])))
     = [(2, PrivateMessageOut (JStr ''alice'') (JStr ''secret''))]"
  using direct_message_goes_to_target_only
    [of "state_of (run init [(1, Connect), (2, Connect), (3, Connect),
        (1, Join (JStr ''alice'')), (2, Join (JStr ''bob''))])" "''bob''" 2
      "JObj [(''to'', JStr ''bob''), (''text'', JStr ''secret'')]" 1]
  by (auto simp add: handler_defs init_def set_prop_def)

text \<open>
  Claim C6: in every state in which the target handle \<open>t\<close> is not registered, a direct
  message to \<open>t\<close> completes without throwing, delivers nothing to any socket and leaves
  the registry as it is; for a handle \<open>t\<close> the handler changes nothing at all.
\<close>

theorem direct_message_to_unknown_target_is_dropped:
  assumes "map_of (onlineUsers s) t = None" and "field p ''to'' = JStr t"
  shows "completes (on_privateMessage s sock p)
    \<and> delivered (state_of (on_privateMessage s sock p)) = delivered s
    \<and> onlineUsers (state_of (on_privateMessage s sock p)) = onlineUsers s
    \<and> (is_handle t \<longrightarrow> on_privateMessage s sock p = Done s)"
proof -
  have g: "get_prop (onlineUsers s) t = (if is_handle t then Missing else Inherited)"
    using assms(1) by (simp add: get_prop_def is_handle_iff)
  show ?thesis
    using assms(2) field_str_destructurable [OF assms(2)]
    by (simp add: on_privateMessage_def Let_def g emit_def)
qed

theorem direct_message_to_unknown_target_is_dropped_witness:
  "map_of (onlineUsers (state_of (run init [(1, Connect), (2, Connect),
        (1, Join (JStr ''alice'')), (2, Join (JStr ''bob''))]))) ''ghost'' = None
   \<and> is_handle ''ghost''
   \<and> on_privateMessage (state_of (run init [(1, Connect), (2, Connect),
        (1, Join (JStr ''alice'')), (2, Join (JStr ''bob''))])) 1
        (JObj [(''to'', JStr ''ghost''), (''text'', JStr ''x'')])
     = Done (state_of (run init [(1, Connect), (2, Connect),
        (1, Join (JStr ''alice'')), (2, Join (JStr ''bob''))]))"
  using direct_message_to_unknown_target_is_dropped
    [of "state_of (run init [(1, Connect), (2, Connect),
        (1, Join (JStr ''alice'')), (2, Join (JStr ''bob''))])" "''ghost''"
      "JObj [(''to'', JStr ''ghost''), (''text'', JStr ''x'')]" 1]
  by (simp add: handler_defs init_def set_prop_def is_handle_iff object_prototype_keys_def)


section \<open>One entry for each handle\<close>

text \<open>
  Claim C7: the registry never holds two entries under one handle. The \<^verbatim>\<open>join\<close>
  handler never fails for a string \<open>h\<close>; afterwards the entry of a handle \<open>h\<close> (a
  nickname that account registration accepts, \<open>is_handle\<close>) holds the joining channel;
  when \<open>h\<close> had an entry before, the keys of the registry are the same
  list as before, so the entry was replaced and none was added. Every step keeps the keys
  of the registry free of repetitions, and so they are in every state that a sequence of
  events reaches from the empty registry, whether it ends normally or in an exception.
  Handlers run one after the other, so these states are all the instants there are.
\<close>

theorem one_entry_per_handle:
  "completes (on_join s sock (JStr h))
   \<and> (is_handle h \<longrightarrow> map_of (onlineUsers (state_of (on_join s sock (JStr h)))) h = Some sock)
   \<and> (\<forall>c. map_of (onlineUsers s) h = Some c \<longrightarrow>
         map fst (onlineUsers (state_of (on_join s sock (JStr h)))) = map fst (onlineUsers s))
   \<and> (distinct (map fst (onlineUsers s)) \<longrightarrow>
         distinct (map fst (onlineUsers (state_of (step s e)))))
   \<and> distinct (map fst (onlineUsers (state_of (run init es))))"
proof -
  have "distinct (map fst (onlineUsers (state_of (run init es))))"
    by (rule run_keys_distinct) (simp add: init_def)
  then show ?thesis
    by (auto simp add: on_join_str map_of_set_prop_same handle_not_proto keys_set_prop_present
        step_keys_distinct)
qed

theorem one_entry_per_handle_witness:
  "is_handle ''alice''
   \<and> map_of (onlineUsers (state_of (on_join init 1 (JStr ''alice'')))) ''alice'' = Some 1
   \<and> map_of (onlineUsers (state_of (on_join (state_of (on_join init 1 (JStr ''alice''))) 2
        (JStr ''alice'')))) ''alice'' = Some 2
   \<and> map fst (onlineUsers (state_of (on_join (state_of (on_join init 1 (JStr ''alice''))) 2
        (JStr ''alice'')))) = [''alice'']
   \<and> distinct (map fst (onlineUsers (state_of (on_join init 1 (JStr ''alice'')))))
   \<and> distinct (map fst (onlineUsers (state_of (step (state_of (on_join init 1 (JStr ''alice'')))
        (1, Disconnect)))))"
  using one_entry_per_handle
    [of "state_of (on_join init 1 (JStr ''alice''))" 2 "''alice''" "(1, Disconnect)" "[]"]
    one_entry_per_handle [of init 1 "''alice''" "(1, Disconnect)" "[]"]
  by (simp add: on_join_str init_def set_prop_def is_handle_iff object_prototype_keys_def)


section \<open>Joining again under another handle\<close>

text \<open>
  Claim C8: a connected channel \<open>c\<close> joins as \<open>h1\<close> and then as \<open>h2\<close>, two
  distinct handles (nicknames that account registration accepts, \<open>is_handle\<close>).
  Afterwards the registry maps both \<open>h1\<close> and \<open>h2\<close> to \<open>c\<close>, and the entry of
  every other key is as it was before the two joins. The disconnect of \<open>c\<close> then
  completes and removes the entry of \<open>h2\<close> only: the entry of every key other than
  \<open>h2\<close> is as it was before the disconnect, so \<open>h1\<close> stays registered to \<open>c\<close>,
  which is no longer connected.
\<close>

theorem rejoin_leaves_old_handle_registered:
  assumes "is_handle h1" and "is_handle h2" and "h1 \<noteq> h2" and "c \<in> set (connected s)"
    and "s2 = state_of (run s [(c, Join (JStr h1)), (c, Join (JStr h2))])"
    and "s3 = state_of (step s2 (c, Disconnect))"
  shows "completes (run s [(c, Join (JStr h1)), (c, Join (JStr h2)), (c, Disconnect)])
    \<and> s3 = state_of (run s [(c, Join (JStr h1)), (c, Join (JStr h2)), (c, Disconnect)])
    \<and> map_of (onlineUsers s2) h1 = Some c \<and> map_of (onlineUsers s2) h2 = Some c
    \<and> (\<forall>k. k \<noteq> h1 \<and> k \<noteq> h2 \<longrightarrow> map_of (onlineUsers s2) k = map_of (onlineUsers s) k)
    \<and> map_of (onlineUsers s3) h2 = None \<and> map_of (onlineUsers s3) h1 = Some c
    \<and> (\<forall>k. k \<noteq> h2 \<longrightarrow> map_of (onlineUsers s3) k = map_of (onlineUsers s2) k)
    \<and> c \<notin> set (connected s3)"
  using assms
  by (simp add: on_join_str on_disconnect_def leave_def map_of_delete_prop
      map_of_set_prop_same map_of_set_prop_other handle_not_proto)

theorem rejoin_leaves_old_handle_registered_witness:
  "is_handle ''alice'' \<and> is_handle ''bob''
   \<and> 1 \<in> set (connected (state_of (run init
        [(3, Connect), (3, Join (JStr ''carol'')), (1, Connect)])))
   \<and> onlineUsers (state_of (run (state_of (run init
        [(3, Connect), (3, Join (JStr ''carol'')), (1, Connect)]))
        [(1, Join (JStr ''alice'')), (1, Join (JStr ''bob''))]))
      = [(''carol'', 3), (''alice'', 1), (''bob'', 1)]
   \<and> onlineUsers (state_of (run (state_of (run init
        [(3, Connect), (3, Join (JStr ''carol'')), (1, Connect)]))
        [(1, Join (JStr ''alice'')), (1, Join (JStr ''bob'')), (1, Disconnect)]))
      = [(''carol'', 3), (''alice'', 1)]
   \<and> map_of (onlineUsers (state_of (run (state_of (run init
        [(3, Connect), (3, Join (JStr ''carol'')), (1, Connect)]))
        [(1, Join (JStr ''alice'')), (1, Join (JStr ''bob'')), (1, Disconnect)]))) ''carol''
      = Some 3
   \<and> 1 \<notin> set (connected (state_of (run (state_of (run init
        [(3, Connect), (3, Join (JStr ''carol'')), (1, Connect)]))
        [(1, Join (JStr ''alice'')), (1, Join (JStr ''bob'')), (1, Disconnect)])))"
  using rejoin_leaves_old_handle_registered
    [of "''alice''" "''bob''" 1
      "state_of (run init [(3, Connect), (3, Join (JStr ''carol'')), (1, Connect)])"
      "state_of (run (state_of (run init
        [(3, Connect), (3, Join (JStr ''carol'')), (1, Connect)]))
        [(1, Join (JStr ''alice'')), (1, Join (JStr ''bob''))])"
      "state_of (step (state_of (run (state_of (run init
        [(3, Connect), (3, Join (JStr ''carol'')), (1, Connect)]))
        [(1, Join (JStr ''alice'')), (1, Join (JStr ''bob''))])) (1, Disconnect))"]
  by (simp add: handler_defs init_def set_prop_def delete_prop_def is_handle_iff
      object_prototype_keys_def)

section \<open>Sockets that never joined\<close>

text \<open>
  Claim C9: a socket connects and sends no \<^verbatim>\<open>join\<close>, while other events may
  happen. As long as it is connected, a broadcast from it completes and delivers the
  message to every connected socket, once for each entry of the list of connected sockets,
  with \<^verbatim>\<open>undefined\<close> as the sender.
\<close>

theorem broadcast_before_join_has_undefined_sender:
  assumes "sock \<notin> set (connected s0)" and "s = state_of (run s0 ((sock, Connect) # es))"
    and "\<forall>v. (sock, Join v) \<notin> set es" and "sock \<in> set (connected s)"
  shows "completes (step s (sock, GlobalMessage msg))
    \<and> delivered (state_of (step s (sock, GlobalMessage msg)))
        = delivered s @ map (\<lambda>r. (r, GlobalMessageOut JUndefined msg)) (connected s)"
  using never_joined [OF assms(1-3)] assms(4)
  by (simp add: on_globalMessage_def emit_def)

theorem broadcast_before_join_has_undefined_sender_witness:
  "1 \<notin> set (connected init)
   \<and> 1 \<in> set (connected (state_of (run init [(1, Connect), (2, Connect),
        (2, Join (JStr ''bob''))])))
   \<and> delivered (state_of (step (state_of (run init [(1, Connect), (2, Connect),
        (2, Join (JStr ''bob''))])) (1, GlobalMessage (JStr ''hi''))))
     = [(1, GlobalMessageOut JUndefined (JStr ''hi'')),
        (2, GlobalMessageOut JUndefined (JStr ''hi''))]"
  using broadcast_before_join_has_undefined_sender
    [of 1 init "state_of (run init [(1, Connect), (2, Connect), (2, Join (JStr ''bob''))])"
      "[(2, Connect), (2, Join (JStr ''bob''))]" "JStr ''hi''"]
  by (simp add: handler_defs init_def set_prop_def)

text \<open>
  Claim C10: a socket connects and sends no \<^verbatim>\<open>join\<close>, while other events may
  happen. Its disconnect completes and removes the entry under the key
  \<^verbatim>\<open>undefined\<close>, to which the missing nickname is converted, if there is one; the entry
  of every other handle is as before.
\<close>

theorem disconnect_before_join_deletes_undefined_key:
  assumes "sock \<notin> set (connected s0)" and "s = state_of (run s0 ((sock, Connect) # es))"
    and "\<forall>v. (sock, Join v) \<notin> set es" and "sock \<in> set (connected s)"
  shows "completes (step s (sock, Disconnect))
    \<and> map_of (onlineUsers (state_of (step s (sock, Disconnect)))) ''undefined'' = None
    \<and> (\<forall>h. h \<noteq> ''undefined'' \<longrightarrow>
         map_of (onlineUsers (state_of (step s (sock, Disconnect)))) h = map_of (onlineUsers s) h)"
  using never_joined [OF assms(1-3)] assms(4)
  by (simp add: on_disconnect_def leave_def map_of_delete_prop)

theorem disconnect_before_join_deletes_undefined_key_witness:
  "1 \<notin> set (connected init)
   \<and> onlineUsers (state_of (run init [(1, Connect), (2, Connect),
        (2, Join (JStr ''undefined'')), (3, Connect), (3, Join (JStr ''carol''))]))
      = [(''undefined'', 2), (''carol'', 3)]
   \<and> onlineUsers (state_of (step (state_of (run init [(1, Connect), (2, Connect),
        (2, Join (JStr ''undefined'')), (3, Connect), (3, Join (JStr ''carol''))]))
        (1, Disconnect))) = [(''carol'', 3)]
   \<and> map_of (onlineUsers (state_of (step (state_of (run init [(1, Connect), (2, Connect),
        (2, Join (JStr ''undefined'')), (3, Connect), (3, Join (JStr ''carol''))]))
        (1, Disconnect)))) ''undefined'' = None"
  using disconnect_before_join_deletes_undefined_key
    [of 1 init "state_of (run init [(1, Connect), (2, Connect),
        (2, Join (JStr ''undefined'')), (3, Connect), (3, Join (JStr ''carol''))])"
      "[(2, Connect), (2, Join (JStr ''undefined'')), (3, Connect), (3, Join (JStr ''carol''))]"]
  by (simp add: handler_defs init_def set_prop_def delete_prop_def)

end
